theory Spec2Isabelle
  imports Main "HOL-Library.Word" "HOL-Library.Sublist" "HOL-Library.Char_ord"
    "HOL-Library.List_Lexorder"
begin

section \<open>The tablet server: data model\<close>

text \<open>
  The development follows \<^verbatim>\<open>go/vt/vttablet/tabletserver/tabletserver.go\<close>.
  Mutation of the \<^verbatim>\<open>TabletServer\<close> struct is explicit state passing: every method takes
  the struct and returns it updated. The mutex \<^verbatim>\<open>mu\<close> is held across each of the modelled
  critical sections, so each is one atomic function. Logging, tracing, statistics counters
  and the history ring do not influence any value modelled here and are left out.
\<close>

subsection \<open>Serving states and their names\<close>

text \<open>The \<^verbatim>\<open>iota\<close> constants \<^verbatim>\<open>StateNotConnected\<close> .. \<^verbatim>\<open>StateShuttingDown\<close>.\<close>

datatype ServingState =
    StateNotConnected
  | StateNotServing
  | StateServing
  | StateTransitioning
  | StateShuttingDown

text \<open>The integer value of each constant, used to index the name tables.\<close>

fun state_num :: "ServingState \<Rightarrow> nat" where
  "state_num StateNotConnected = 0"
| "state_num StateNotServing = 1"
| "state_num StateServing = 2"
| "state_num StateTransitioning = 3"
| "state_num StateShuttingDown = 4"

definition stateName :: "string list" where
  "stateName = [''NOT_SERVING'', ''NOT_SERVING'', ''SERVING'', ''NOT_SERVING'', ''SHUTTING_DOWN'']"

definition stateDetail :: "string list" where
  "stateDetail = [''Not Connected'', ''Not Serving'', '''', ''Transitioning'', ''Shutting Down'']"

definition stateInfo :: "ServingState \<Rightarrow> string" where
  "stateInfo st =
     (if st = StateServing then ''SERVING''
      else stateName ! state_num st @ '' ('' @ stateDetail ! state_num st @ '')'')"

subsection \<open>Targets, error codes, errors, contexts\<close>

text \<open>
  Modelled from the spec: the tablet type enumeration is declared in the topodata protocol
  package, which is absent; the spec lists the roles Master, Replica, Batch, Experimental
  and leaves the rest open. \<open>OtherType\<close> carries the printed name of any further role.
\<close>

datatype TabletType = MASTER | REPLICA | BATCH | EXPERIMENTAL | OtherType string

fun TabletType_String :: "TabletType \<Rightarrow> string" where
  "TabletType_String MASTER = ''MASTER''"
| "TabletType_String REPLICA = ''REPLICA''"
| "TabletType_String BATCH = ''BATCH''"
| "TabletType_String EXPERIMENTAL = ''EXPERIMENTAL''"
| "TabletType_String (OtherType n) = n"

record Target =
  Keyspace :: string
  Shard :: string
  TabletType :: TabletType
  Cell :: string

text \<open>
  Modelled from the spec: the RPC code set of the vtrpc protocol package (absent), as the
  spec's error taxonomy enumerates it.
\<close>

datatype Code =
    OK | CANCELED | UNKNOWN | INVALID_ARGUMENT | DEADLINE_EXCEEDED | NOT_FOUND
  | ALREADY_EXISTS | PERMISSION_DENIED | FAILED_PRECONDITION | RESOURCE_EXHAUSTED
  | ABORTED | UNIMPLEMENTED | INTERNAL | UNAVAILABLE

text \<open>
  An error value is either an error built by \<^verbatim>\<open>vterrors\<close> (a code and a message; any
  other non-MySQL error is seen through the same two observations) or a
  \<^verbatim>\<open>*mysql.SQLError\<close> with its number, SQL state and message.
\<close>

datatype error =
    VtError Code string
  | SQLError int string string

text \<open>
  Contexts are the chain of wrappers the Go code builds: a value marking the context as
  local (\<^verbatim>\<open>tabletenv.LocalContext\<close>), the immediate caller id, and a deadline.
\<close>

datatype Context =
    Background
  | WithLocal Context
  | WithImmediateCallerID string Context
  | WithDeadline int Context

fun IsLocalContext :: "Context \<Rightarrow> bool" where
  "IsLocalContext Background = False"
| "IsLocalContext (WithLocal c) = True"
| "IsLocalContext (WithImmediateCallerID u c) = IsLocalContext c"
| "IsLocalContext (WithDeadline d c) = IsLocalContext c"

fun ImmediateCallerIDFromContext :: "Context \<Rightarrow> string option" where
  "ImmediateCallerIDFromContext Background = None"
| "ImmediateCallerIDFromContext (WithLocal c) = ImmediateCallerIDFromContext c"
| "ImmediateCallerIDFromContext (WithImmediateCallerID u c) = Some u"
| "ImmediateCallerIDFromContext (WithDeadline d c) = ImmediateCallerIDFromContext c"

subsection \<open>The server struct\<close>

text \<open>
  A sub-component is open or closed; the transaction engine also records the mode it was
  put in.
\<close>

datatype Status = Closed | Opened

datatype TxStatus = TxClosed | TxInitialized | TxReadWrite | TxReadOnly

record TabletServer =
  QueryTimeout :: "64 word"
  TerseErrors :: bool
  state :: ServingState
  lameduck :: "32 word"
  target :: Target
  alsoAllow :: "TabletType list"
  requests :: int
  se :: Status
  hw :: Status
  hr :: Status
  vstreamer :: Status
  tracker :: Status
  watcher :: Status
  qe :: Status
  txThrottler :: Status
  te :: TxStatus
  messager :: Status

section \<open>State names and the state machine\<close>

definition GetState :: "TabletServer \<Rightarrow> string" where
  "GetState tsv =
     (if lameduck tsv \<noteq> 0 then ''NOT_SERVING''
      else stateName ! state_num (state tsv))"

definition setState :: "ServingState \<Rightarrow> TabletServer \<Rightarrow> TabletServer" where
  "setState st tsv = tsv\<lparr>state := st\<rparr>"

definition transition :: "ServingState \<Rightarrow> TabletServer \<Rightarrow> TabletServer" where
  "transition newState tsv = setState newState tsv"

definition IsServing :: "TabletServer \<Rightarrow> bool" where
  "IsServing tsv = (GetState tsv = ''SERVING'')"

definition EnterLameduck :: "TabletServer \<Rightarrow> TabletServer" where
  "EnterLameduck tsv = tsv\<lparr>lameduck := 1\<rparr>"

definition ExitLameduck :: "TabletServer \<Rightarrow> TabletServer" where
  "ExitLameduck tsv = tsv\<lparr>lameduck := 0\<rparr>"

datatype Action = actionNone | actionFullStart | actionServeNewType | actionGracefulStop

text \<open>
  \<^verbatim>\<open>decideAction\<close> returns the action, the error and the updated struct. The
  \<^verbatim>\<open>default: panic("unreachable")\<close> arm of the switch is excluded by the type of states.
\<close>

definition decideAction ::
  "TabletType \<Rightarrow> bool \<Rightarrow> TabletType list \<Rightarrow> TabletServer
    \<Rightarrow> Action \<times> error option \<times> TabletServer" where
  "decideAction tabletType serving also tsv =
     (let tsv1 = tsv\<lparr>alsoAllow := also\<rparr> in
      if TabletType (target tsv1) = tabletType \<and> serving \<and> state tsv1 = StateServing
      then (actionNone, None, tsv1)
      else
        let tsv2 = tsv1\<lparr>target := (target tsv1)\<lparr>TabletType := tabletType\<rparr>\<rparr> in
        (case state tsv2 of
           StateNotConnected \<Rightarrow>
             if serving then (actionFullStart, None, setState StateTransitioning tsv2)
             else (actionNone, None, tsv2)
         | StateNotServing \<Rightarrow>
             if serving then (actionServeNewType, None, setState StateTransitioning tsv2)
             else (actionNone, None, tsv2)
         | StateServing \<Rightarrow>
             if \<not> serving then (actionGracefulStop, None, setState StateShuttingDown tsv2)
             else (actionServeNewType, None, setState StateTransitioning tsv2)
         | StateTransitioning \<Rightarrow>
             (actionNone,
              Some (VtError FAILED_PRECONDITION
                (''cannot SetServingType, current state: '' @ stateName ! state_num (state tsv2))),
              tsv2)
         | StateShuttingDown \<Rightarrow>
             (actionNone,
              Some (VtError FAILED_PRECONDITION
                (''cannot SetServingType, current state: '' @ stateName ! state_num (state tsv2))),
              tsv2)))"

section \<open>The request gate\<close>

text \<open>The loop over \<^verbatim>\<open>tsv.alsoAllow\<close> that leaves at the first equal element.\<close>

fun inAlsoAllow :: "TabletType \<Rightarrow> TabletType list \<Rightarrow> bool" where
  "inAlsoAllow t [] = False"
| "inAlsoAllow t (otherType # rest) = (if t = otherType then True else inAlsoAllow t rest)"

text \<open>\<^verbatim>\<open>%v\<close> of a slice of tablet types: the names between brackets, separated by spaces.\<close>

fun join_names :: "string list \<Rightarrow> string" where
  "join_names [] = []"
| "join_names [x] = x"
| "join_names (x # y # ys) = x @ '' '' @ join_names (y # ys)"

definition fmt_types :: "TabletType list \<Rightarrow> string" where
  "fmt_types ts = ''['' @ join_names (map TabletType_String ts) @ '']''"

definition invalid_tablet_type :: "TabletType \<Rightarrow> TabletServer \<Rightarrow> error" where
  "invalid_tablet_type t tsv =
     VtError FAILED_PRECONDITION
       (''invalid tablet type: '' @ TabletType_String t @ '', want: ''
          @ TabletType_String (TabletType (target tsv)) @ '' or '' @ fmt_types (alsoAllow tsv))"

text \<open>
  The part of \<^verbatim>\<open>startRequest\<close> from the label \<^verbatim>\<open>verifyTarget:\<close> to the end, with the
  label \<^verbatim>\<open>ok:\<close> (\<^verbatim>\<open>tsv.requests.Add(1)\<close>) as its successful exit.
\<close>

definition startRequest_ok :: "TabletServer \<Rightarrow> error option \<times> TabletServer" where
  "startRequest_ok tsv = (None, tsv\<lparr>requests := requests tsv + 1\<rparr>)"

definition startRequest_verifyTarget ::
  "Context \<Rightarrow> Target option \<Rightarrow> TabletServer \<Rightarrow> error option \<times> TabletServer" where
  "startRequest_verifyTarget ctx tgt tsv =
     (case tgt of
        Some t \<Rightarrow>
          if Keyspace t \<noteq> Keyspace (target tsv)
          then (Some (VtError INVALID_ARGUMENT (''invalid keyspace '' @ Keyspace t)), tsv)
          else if Shard t \<noteq> Shard (target tsv)
          then (Some (VtError INVALID_ARGUMENT (''invalid shard '' @ Shard t)), tsv)
          else if TabletType t \<noteq> TabletType (target tsv)
          then (if inAlsoAllow (TabletType t) (alsoAllow tsv) then startRequest_ok tsv
                else (Some (invalid_tablet_type (TabletType t) tsv), tsv))
          else startRequest_ok tsv
      | None \<Rightarrow>
          if \<not> IsLocalContext ctx
          then (Some (VtError INVALID_ARGUMENT ''No target''), tsv)
          else startRequest_ok tsv)"

definition startRequest ::
  "Context \<Rightarrow> Target option \<Rightarrow> bool \<Rightarrow> TabletServer \<Rightarrow> error option \<times> TabletServer" where
  "startRequest ctx tgt allowOnShutdown tsv =
     (if state tsv = StateServing then startRequest_verifyTarget ctx tgt tsv
      else if allowOnShutdown \<and> state tsv = StateShuttingDown
      then startRequest_verifyTarget ctx tgt tsv
      else (Some (VtError FAILED_PRECONDITION
              (''operation not allowed in state '' @ stateName ! state_num (state tsv))), tsv))"

definition endRequest :: "TabletServer \<Rightarrow> TabletServer" where
  "endRequest tsv = tsv\<lparr>requests := requests tsv - 1\<rparr>"

text \<open>\<^verbatim>\<open>verifyTarget\<close> changes nothing; it returns the error only.\<close>

definition verifyTarget :: "Context \<Rightarrow> Target option \<Rightarrow> TabletServer \<Rightarrow> error option" where
  "verifyTarget ctx tgt tsv =
     (case tgt of
        Some t \<Rightarrow>
          if Keyspace t \<noteq> Keyspace (target tsv)
          then Some (VtError INVALID_ARGUMENT (''invalid keyspace '' @ Keyspace t))
          else if Shard t \<noteq> Shard (target tsv)
          then Some (VtError INVALID_ARGUMENT (''invalid shard '' @ Shard t))
          else if TabletType t \<noteq> TabletType (target tsv)
          then (if inAlsoAllow (TabletType t) (alsoAllow tsv) then None
                else Some (invalid_tablet_type (TabletType t) tsv))
          else None
      | None \<Rightarrow>
          if \<not> IsLocalContext ctx then Some (VtError INVALID_ARGUMENT ''No target'')
          else None)"

section \<open>Starting and stopping the sub-components\<close>

text \<open>
  The sub-components are external collaborators. What the server needs from them is
  whether each fallible call returns an error; \<open>StartEnv\<close> supplies these outcomes. A
  failing \<^verbatim>\<open>Open\<close> or \<^verbatim>\<open>Init\<close> comes with the status it leaves its component in, so that a
  partially opened component is covered. \<^verbatim>\<open>qe.StopServing\<close> and \<^verbatim>\<open>se.MakeNonMaster\<close> do
  not change whether a component is open.
\<close>

record StartEnv =
  NewDBConnection :: "error option"
  se_Open :: "(error \<times> Status) option"
  qe_Open :: "(error \<times> Status) option"
  txThrottler_Open :: "(error \<times> Status) option"
  te_Init :: "(error \<times> TxStatus) option"
  hw_Open :: "(error \<times> Status) option"

definition serveNewType :: "StartEnv \<Rightarrow> TabletServer \<Rightarrow> error option \<times> TabletServer" where
  "serveNewType env tsv =
     (if TabletType (target tsv) = MASTER then
        let tsv1 = tsv\<lparr>watcher := Closed, hr := Closed\<rparr> in
        (case hw_Open env of
           Some (err, left) \<Rightarrow> (Some err, tsv1\<lparr>hw := left\<rparr>)
         | None \<Rightarrow>
             (None, transition StateServing
                (tsv1\<lparr>hw := Opened, tracker := Opened, te := TxReadWrite, messager := Opened\<rparr>)))
      else
        (None, transition StateServing
           (tsv\<lparr>messager := Closed, te := TxReadOnly, tracker := Closed, hw := Closed,
                hr := Opened, watcher := Opened\<rparr>)))"

definition fullStart :: "StartEnv \<Rightarrow> TabletServer \<Rightarrow> error option \<times> TabletServer" where
  "fullStart env tsv =
     (case NewDBConnection env of
        Some err \<Rightarrow> (Some err, tsv)
      | None \<Rightarrow>
     (case se_Open env of
        Some (err, left) \<Rightarrow> (Some err, tsv\<lparr>se := left\<rparr>)
      | None \<Rightarrow>
     (let tsv1 = tsv\<lparr>se := Opened, vstreamer := Opened\<rparr> in
      case qe_Open env of
        Some (err, left) \<Rightarrow> (Some err, tsv1\<lparr>qe := left\<rparr>)
      | None \<Rightarrow>
     (let tsv2 = tsv1\<lparr>qe := Opened\<rparr> in
      case txThrottler_Open env of
        Some (err, left) \<Rightarrow> (Some err, tsv2\<lparr>txThrottler := left\<rparr>)
      | None \<Rightarrow>
     (let tsv3 = tsv2\<lparr>txThrottler := Opened\<rparr> in
      case te_Init env of
        Some (err, left) \<Rightarrow> (Some err, tsv3\<lparr>te := left\<rparr>)
      | None \<Rightarrow> serveNewType env (tsv3\<lparr>te := TxInitialized\<rparr>))))))"

definition closeAll :: "TabletServer \<Rightarrow> TabletServer" where
  "closeAll tsv =
     transition StateNotConnected
       (tsv\<lparr>messager := Closed, te := TxClosed, txThrottler := Closed, qe := Closed,
            watcher := Closed, tracker := Closed, vstreamer := Closed, hr := Closed,
            hw := Closed, se := Closed\<rparr>)"

text \<open>
  \<^verbatim>\<open>tsv.requests.Wait()\<close> returns once the drain counter is zero. The requests in flight
  belong to other goroutines; in this sequential model a wait on a non-zero counter does
  not return, which is the value \<open>None\<close>.
\<close>

definition waitForShutdown :: "TabletServer \<Rightarrow> TabletServer option" where
  "waitForShutdown tsv =
     (let tsv1 = tsv\<lparr>messager := Closed, te := TxClosed, txThrottler := Closed,
                     tracker := Closed\<rparr>
      in if requests tsv1 = 0 then Some tsv1 else None)"

definition gracefulStop :: "TabletServer \<Rightarrow> TabletServer option" where
  "gracefulStop tsv =
     (case waitForShutdown tsv of
        None \<Rightarrow> None
      | Some tsv1 \<Rightarrow> Some (transition StateNotServing tsv1))"

text \<open>
  \<^verbatim>\<open>SetServingType\<close> returns \<^verbatim>\<open>stateChanged\<close>, the error and the struct. The deferred
  \<^verbatim>\<open>ExitLameduck\<close> runs on every return.
\<close>

definition SetServingType ::
  "StartEnv \<Rightarrow> TabletType \<Rightarrow> bool \<Rightarrow> TabletType list \<Rightarrow> TabletServer
    \<Rightarrow> (bool \<times> error option \<times> TabletServer) option" where
  "SetServingType env tabletType serving also tsv =
     (case decideAction tabletType serving also tsv of
        (action, Some err, tsv1) \<Rightarrow> Some (False, Some err, ExitLameduck tsv1)
      | (action, None, tsv1) \<Rightarrow>
          (case action of
             actionNone \<Rightarrow> Some (False, None, ExitLameduck tsv1)
           | actionFullStart \<Rightarrow>
               (case fullStart env tsv1 of
                  (Some err, tsv2) \<Rightarrow> Some (True, Some err, ExitLameduck (closeAll tsv2))
                | (None, tsv2) \<Rightarrow> Some (True, None, ExitLameduck tsv2))
           | actionServeNewType \<Rightarrow>
               (case serveNewType env tsv1 of
                  (Some err, tsv2) \<Rightarrow> Some (True, Some err, ExitLameduck (closeAll tsv2))
                | (None, tsv2) \<Rightarrow> Some (True, None, ExitLameduck tsv2))
           | actionGracefulStop \<Rightarrow>
               (case gracefulStop tsv1 of
                  None \<Rightarrow> None
                | Some tsv2 \<Rightarrow> Some (True, None, ExitLameduck tsv2))))"

section \<open>Deadlines\<close>

text \<open>
  Modelled from the spec: the workloads of the execute options (declared in the query
  protocol package, absent). A nil options pointer reads as the zero workload.
\<close>

datatype Workload = UNSPECIFIED | OLTP | OLAP | DBA

record ExecuteOptions =
  Workload :: Workload
  SkipQueryPlanCache :: bool

definition GetWorkload :: "ExecuteOptions option \<Rightarrow> Workload" where
  "GetWorkload options = (case options of None \<Rightarrow> UNSPECIFIED | Some opts \<Rightarrow> Workload opts)"

text \<open>
  \<^verbatim>\<open>context.WithTimeout(ctx, timeout)\<close> wraps the context with the deadline
  \<^verbatim>\<open>time.Now().Add(timeout)\<close>; the clock reading \<open>now\<close> is a parameter, in nanoseconds.
\<close>

definition context_WithTimeout :: "int \<Rightarrow> Context \<Rightarrow> 64 word \<Rightarrow> Context" where
  "context_WithTimeout now ctx timeout = WithDeadline (now + sint timeout) ctx"

definition withTimeout ::
  "int \<Rightarrow> Context \<Rightarrow> 64 word \<Rightarrow> ExecuteOptions option \<Rightarrow> Context" where
  "withTimeout now ctx timeout options =
     (if timeout = 0 \<or> GetWorkload options = DBA \<or> IsLocalContext ctx then ctx
      else context_WithTimeout now ctx timeout)"

definition skipQueryPlanCache :: "ExecuteOptions option \<Rightarrow> bool" where
  "skipQueryPlanCache options =
     (case options of None \<Rightarrow> False | Some opts \<Rightarrow> SkipQueryPlanCache opts)"

section \<open>Error classification\<close>

text \<open>
  What the server uses from outside the file when it builds error values and messages:
  the numeric value of each MySQL error constant (looked up by the constant's name), the
  text of a \<^verbatim>\<open>*mysql.SQLError\<close>, and the two formatting verbs whose output is defined by
  the Go library: \<^verbatim>\<open>%q\<close> of a string and \<^verbatim>\<open>%v\<close> of a bind variable pointer.
\<close>

datatype BindVariable = BindVariable string

type_synonym bindvars = "(string \<times> BindVariable) list"

record Externals =
  errno :: "string \<Rightarrow> int"
  SQLError_Error :: "int \<Rightarrow> string \<Rightarrow> string \<Rightarrow> string"
  fmt_q :: "string \<Rightarrow> string"
  fmt_v :: "BindVariable option \<Rightarrow> string"

text \<open>\<^verbatim>\<open>%d\<close> of an integer.\<close>

definition digit :: "nat \<Rightarrow> char" where
  "digit d = ''0123456789'' ! d"

function show_nat :: "nat \<Rightarrow> string" where
  "show_nat n =
     (if n < 10 then [digit n]
      else show_nat (n div 10) @ [digit (n mod 10)])"
  by pat_completeness auto
termination
  by (relation "measure id") auto

declare show_nat.simps [simp del]

definition show_int :: "int \<Rightarrow> string" where
  "show_int i = (if i < 0 then ''-'' @ show_nat (nat (- i)) else show_nat (nat i))"

text \<open>\<^verbatim>\<open>strings.Contains\<close>.\<close>

fun Contains :: "string \<Rightarrow> string \<Rightarrow> bool" where
  "Contains [] sub = (sub = [])"
| "Contains (c # cs) sub = (prefix sub (c # cs) \<or> Contains cs sub)"

definition error_Error :: "Externals \<Rightarrow> error \<Rightarrow> string" where
  "error_Error ext err =
     (case err of
        VtError c msg \<Rightarrow> msg
      | SQLError num st msg \<Rightarrow> SQLError_Error ext num st msg)"

text \<open>
  Modelled from the spec: \<^verbatim>\<open>vterrors.Code\<close> (absent) preserves the upstream code of
  an error that carries one, with default \<^verbatim>\<open>UNKNOWN\<close>.
\<close>

definition vterrors_Code :: "error \<Rightarrow> Code" where
  "vterrors_Code err = (case err of VtError c msg \<Rightarrow> c | SQLError num st msg \<Rightarrow> UNKNOWN)"

text \<open>The constants of the longer \<^verbatim>\<open>case\<close> lists of \<^verbatim>\<open>convertErrorCode\<close>, in source order.\<close>

definition cases_RESOURCE_EXHAUSTED :: "string list" where
  "cases_RESOURCE_EXHAUSTED =
    [''ERDiskFull'', ''EROutOfMemory'', ''EROutOfSortMemory'', ''ERConCount'',
     ''EROutOfResources'', ''ERRecordFileFull'', ''ERHostIsBlocked'', ''ERCantCreateThread'',
     ''ERTooManyDelayedThreads'', ''ERNetPacketTooLarge'', ''ERTooManyUserConnections'',
     ''ERLockTableFull'', ''ERUserLimitReached'', ''ERVitessMaxRowsExceeded'']"

definition cases_NOT_FOUND :: "string list" where
  "cases_NOT_FOUND =
    [''ERFormNotFound'', ''ERKeyNotFound'', ''ERBadFieldError'', ''ERNoSuchThread'',
     ''ERUnknownTable'', ''ERCantFindUDF'', ''ERNonExistingGrant'', ''ERNoSuchTable'',
     ''ERNonExistingTableGrant'', ''ERKeyDoesNotExist'']"

definition cases_PERMISSION_DENIED :: "string list" where
  "cases_PERMISSION_DENIED =
    [''ERDBAccessDenied'', ''ERAccessDeniedError'', ''ERKillDenied'',
     ''ERNoPermissionToCreateUsers'']"

definition cases_FAILED_PRECONDITION :: "string list" where
  "cases_FAILED_PRECONDITION =
    [''ERNoDb'', ''ERNoSuchIndex'', ''ERCantDropFieldOrKey'', ''ERTableNotLockedForWrite'',
     ''ERTableNotLocked'', ''ERTooBigSelect'', ''ERNotAllowedCommand'', ''ERTooLongString'',
     ''ERDelayedInsertTableLocked'', ''ERDupUnique'', ''ERRequiresPrimaryKey'',
     ''ERCantDoThisDuringAnTransaction'', ''ERReadOnlyTransaction'', ''ERCannotAddForeign'',
     ''ERNoReferencedRow'', ''ERRowIsReferenced'', ''ERCantUpdateWithReadLock'',
     ''ERNoDefault'', ''EROperandColumns'', ''ERSubqueryNo1Row'', ''ERNonUpdateableTable'',
     ''ERFeatureDisabled'', ''ERDuplicatedValueInType'', ''ERRowIsReferenced2'',
     ''ErNoReferencedRow2'', ''ERWarnDataOutOfRange'']"

definition cases_ALREADY_EXISTS :: "string list" where
  "cases_ALREADY_EXISTS =
    [''ERTableExists'', ''ERDupEntry'', ''ERFileExists'', ''ERUDFExists'']"

definition cases_ABORTED :: "string list" where
  "cases_ABORTED =
    [''ERGotSignal'', ''ERForcingClose'', ''ERAbortingConnection'', ''ERLockDeadlock'']"

definition cases_INVALID_ARGUMENT :: "string list" where
  "cases_INVALID_ARGUMENT =
    [''ERUnknownComError'', ''ERBadNullError'', ''ERBadDb'', ''ERBadTable'', ''ERNonUniq'',
     ''ERWrongFieldWithGroup'', ''ERWrongGroupField'', ''ERWrongSumSelect'',
     ''ERWrongValueCount'', ''ERTooLongIdent'', ''ERDupFieldName'', ''ERDupKeyName'',
     ''ERWrongFieldSpec'', ''ERParseError'', ''EREmptyQuery'', ''ERNonUniqTable'',
     ''ERInvalidDefault'', ''ERMultiplePriKey'', ''ERTooManyKeys'', ''ERTooManyKeyParts'',
     ''ERTooLongKey'', ''ERKeyColumnDoesNotExist'', ''ERBlobUsedAsKey'',
     ''ERTooBigFieldLength'', ''ERWrongAutoKey'', ''ERWrongFieldTerminators'',
     ''ERBlobsAndNoTerminated'', ''ERTextFileNotReadable'', ''ERWrongSubKey'',
     ''ERCantRemoveAllFields'', ''ERUpdateTableUsed'', ''ERNoTablesUsed'', ''ERTooBigSet'',
     ''ERBlobCantHaveDefault'', ''ERWrongDbName'', ''ERWrongTableName'',
     ''ERUnknownProcedure'', ''ERWrongParamCountToProcedure'',
     ''ERWrongParametersToProcedure'', ''ERFieldSpecifiedTwice'', ''ERInvalidGroupFuncUse'',
     ''ERTableMustHaveColumns'', ''ERUnknownCharacterSet'', ''ERTooManyTables'',
     ''ERTooManyFields'', ''ERTooBigRowSize'', ''ERWrongOuterJoin'', ''ERNullColumnInIndex'',
     ''ERFunctionNotDefined'', ''ERWrongValueCountOnRow'', ''ERInvalidUseOfNull'',
     ''ERRegexpError'', ''ERMixOfGroupFuncAndFields'', ''ERIllegalGrantForTable'',
     ''ERSyntaxError'', ''ERWrongColumnName'', ''ERWrongKeyColumn'',
     ''ERBlobKeyWithoutLength'', ''ERPrimaryCantHaveNull'', ''ERTooManyRows'',
     ''ERUnknownSystemVariable'', ''ERSetConstantsOnly'', ''ERWrongArguments'',
     ''ERWrongUsage'', ''ERWrongNumberOfColumnsInSelect'', ''ERDupArgument'',
     ''ERLocalVariable'', ''ERGlobalVariable'', ''ERWrongValueForVar'', ''ERWrongTypeForVar'',
     ''ERVarCantBeRead'', ''ERCantUseOptionHere'', ''ERIncorrectGlobalLocalVar'',
     ''ERWrongFKDef'', ''ERKeyRefDoNotMatchTableRef'', ''ERCyclicReference'',
     ''ERCollationCharsetMismatch'', ''ERCantAggregate2Collations'',
     ''ERCantAggregate3Collations'', ''ERCantAggregateNCollations'', ''ERVariableIsNotStruct'',
     ''ERUnknownCollation'', ''ERWrongNameForIndex'', ''ERWrongNameForCatalog'',
     ''ERBadFTColumn'', ''ERTruncatedWrongValue'', ''ERTooMuchAutoTimestampCols'',
     ''ERInvalidOnUpdate'', ''ERUnknownTimeZone'', ''ERInvalidCharacterString'',
     ''ERIllegalReference'', ''ERDerivedMustHaveAlias'', ''ERTableNameNotAllowedHere'',
     ''ERDataTooLong'', ''ERDataOutOfRange'', ''ERTruncatedWrongValueForField'']"

definition is_case :: "Externals \<Rightarrow> int \<Rightarrow> string list \<Rightarrow> bool" where
  "is_case ext errnum names = (errnum \<in> set (map (errno ext) names))"

definition convertErrorCode :: "Externals \<Rightarrow> error \<Rightarrow> Code" where
  "convertErrorCode ext err =
     (let errCode = vterrors_Code err in
      case err of
        VtError c msg \<Rightarrow> errCode
      | SQLError errnum st msg \<Rightarrow>
          let errstr = error_Error ext err in
          if is_case ext errnum [''ERNotSupportedYet''] then UNIMPLEMENTED
          else if is_case ext errnum cases_RESOURCE_EXHAUSTED then RESOURCE_EXHAUSTED
          else if is_case ext errnum [''ERLockWaitTimeout''] then DEADLINE_EXCEEDED
          else if is_case ext errnum [''CRServerGone'', ''ERServerShutdown''] then UNAVAILABLE
          else if is_case ext errnum cases_NOT_FOUND then NOT_FOUND
          else if is_case ext errnum cases_PERMISSION_DENIED then PERMISSION_DENIED
          else if is_case ext errnum cases_FAILED_PRECONDITION then FAILED_PRECONDITION
          else if is_case ext errnum [''EROptionPreventsStatement'']
          then (if Contains errstr ''read-only'' then FAILED_PRECONDITION else errCode)
          else if is_case ext errnum cases_ALREADY_EXISTS then ALREADY_EXISTS
          else if is_case ext errnum cases_ABORTED then ABORTED
          else if is_case ext errnum cases_INVALID_ARGUMENT then INVALID_ARGUMENT
          else if is_case ext errnum [''ERSpecifiedAccessDenied'']
          then (if Contains errstr ''failover in progress'' then FAILED_PRECONDITION
                else PERMISSION_DENIED)
          else if is_case ext errnum [''CRServerLost''] then CANCELED
          else errCode)"

text \<open>
  \<^verbatim>\<open>queryAsString\<close>: the quoted SQL, then each key of the bind variable map in sorted order
  with its quoted \<^verbatim>\<open>%v\<close> rendering. A Go map is modelled by an association list, where
  \<open>map_of\<close> is the lookup; a nil map is the empty list.
\<close>

definition queryAsString :: "Externals \<Rightarrow> string \<Rightarrow> bindvars \<Rightarrow> string" where
  "queryAsString ext sql bindVariables =
     ''Sql: '' @ fmt_q ext sql @ '', BindVars: {''
       @ concat (map (\<lambda>key. key @ '': '' @ fmt_q ext (fmt_v ext (map_of bindVariables key)))
                   (sort (remdups (map fst bindVariables))))
       @ ''}''"

text \<open>
  \<^verbatim>\<open>convertAndLogError\<close> returns the error handed to the caller. The log line it also
  writes is not part of the returned value.
\<close>

definition callerID_of :: "Context \<Rightarrow> string" where
  "callerID_of ctx =
     (case ImmediateCallerIDFromContext ctx of
        None \<Rightarrow> []
      | Some username \<Rightarrow> '' (CallerID: '' @ username @ '')'')"

definition convertAndLogError ::
  "Externals \<Rightarrow> TabletServer \<Rightarrow> Context \<Rightarrow> string \<Rightarrow> bindvars \<Rightarrow> error option
    \<Rightarrow> error option" where
  "convertAndLogError ext tsv ctx sql bindVariables err0 =
     (case err0 of
        None \<Rightarrow> None
      | Some err \<Rightarrow>
          let errCode = convertErrorCode ext err;
              callerID = callerID_of ctx
          in (case err of
                SQLError errnum sqlState message \<Rightarrow>
                  if TerseErrors tsv \<and> length bindVariables \<noteq> 0 \<and> errCode \<noteq> FAILED_PRECONDITION
                  then Some (VtError errCode
                         (''(errno '' @ show_int errnum @ '') (sqlstate '' @ sqlState @ '')''
                            @ callerID @ '': '' @ queryAsString ext sql []))
                  else Some (VtError errCode
                         (message @ '' (errno '' @ show_int errnum @ '') (sqlstate '' @ sqlState
                            @ '')'' @ callerID @ '': '' @ queryAsString ext sql bindVariables))
              | VtError c msg \<Rightarrow>
                  Some (VtError errCode (error_Error ext err @ callerID))))"

section \<open>The request wrapper and \<^verbatim>\<open>Execute\<close>\<close>

text \<open>
  Modelled from the spec: plans, parsed queries and results belong to the query engine
  (absent). A plan is seen through its kind, its table name and its optional where-clause;
  \<open>QueryEnv\<close> supplies the engine's operations.
\<close>

datatype PlanType =
    PlanSelect | PlanInsert | PlanUpdate | PlanUpdateLimit | PlanDelete | PlanDeleteLimit
  | PlanOtherKind string

datatype ParsedQuery = ParsedQuery string

record Plan =
  PlanID :: PlanType
  TableName :: string
  WhereClause :: "ParsedQuery option"

datatype Result = Result "string list" "string list list"

record QueryExecutor =
  qre_query :: string
  qre_marginComments :: "string \<times> string"
  qre_bindVars :: bindvars
  qre_connID :: "64 word"
  qre_options :: "ExecuteOptions option"
  qre_plan :: Plan
  qre_ctx :: Context
  qre_tabletType :: "TabletType option"

record QueryEnv =
  SplitMarginComments :: "string \<Rightarrow> string \<times> (string \<times> string)"
  GetPlan :: "Context \<Rightarrow> string \<Rightarrow> bool \<Rightarrow> error + Plan"
  qre_Execute :: "QueryExecutor \<Rightarrow> error + Result"
  StripMetadata :: "ExecuteOptions option \<Rightarrow> Result \<Rightarrow> Result"
  GenerateQuery :: "ParsedQuery \<Rightarrow> bindvars \<Rightarrow> error + string"

text \<open>
  \<^verbatim>\<open>execRequest\<close> returns the error, and with it the value the body produced (none when
  the body did not run or failed), which the Go closures store in a captured variable.
\<close>

definition execRequest ::
  "Externals \<Rightarrow> int \<Rightarrow> TabletServer \<Rightarrow> Context \<Rightarrow> 64 word \<Rightarrow> string \<Rightarrow> bindvars
    \<Rightarrow> Target option \<Rightarrow> ExecuteOptions option \<Rightarrow> bool \<Rightarrow> (Context \<Rightarrow> error + 'a)
    \<Rightarrow> ('a option \<times> error option) \<times> TabletServer" where
  "execRequest ext now tsv ctx timeout sql bindVariables tgt options allowOnShutdown exec =
     (case startRequest ctx tgt allowOnShutdown tsv of
        (Some err, tsv1) \<Rightarrow> ((None, Some err), tsv1)
      | (None, tsv1) \<Rightarrow>
          let ctx1 = withTimeout now ctx timeout options in
          (case exec ctx1 of
             Inl err \<Rightarrow>
               ((None, convertAndLogError ext tsv1 ctx1 sql bindVariables (Some err)),
                endRequest tsv1)
           | Inr r \<Rightarrow> ((Some r, None), endRequest tsv1)))"

definition GetTabletType :: "Target option \<Rightarrow> TabletType option" where
  "GetTabletType tgt = (case tgt of None \<Rightarrow> None | Some t \<Rightarrow> Some (TabletType t))"

text \<open>The body \<^verbatim>\<open>Execute\<close> hands to \<^verbatim>\<open>execRequest\<close>.\<close>

definition Execute_body ::
  "QueryEnv \<Rightarrow> Target option \<Rightarrow> string \<Rightarrow> bindvars \<Rightarrow> 64 word \<Rightarrow> 64 word
    \<Rightarrow> ExecuteOptions option \<Rightarrow> Context \<Rightarrow> error + Result" where
  "Execute_body qenv tgt sql bindVariables transactionID reservedID options ctx =
     (let (query, comments) = SplitMarginComments qenv sql in
      case GetPlan qenv ctx query (skipQueryPlanCache options) of
        Inl err \<Rightarrow> Inl err
      | Inr plan \<Rightarrow>
          let connID = (if transactionID \<noteq> 0 then transactionID else reservedID);
              qre = \<lparr>qre_query = query, qre_marginComments = comments,
                     qre_bindVars = bindVariables, qre_connID = connID,
                     qre_options = options, qre_plan = plan, qre_ctx = ctx,
                     qre_tabletType = GetTabletType tgt\<rparr>
          in (case qre_Execute qenv qre of
                Inl err \<Rightarrow> Inl err
              | Inr result \<Rightarrow> Inr (StripMetadata qenv options result)))"

definition Execute ::
  "Externals \<Rightarrow> QueryEnv \<Rightarrow> int \<Rightarrow> TabletServer \<Rightarrow> Context \<Rightarrow> Target option \<Rightarrow> string
    \<Rightarrow> bindvars \<Rightarrow> 64 word \<Rightarrow> 64 word \<Rightarrow> ExecuteOptions option
    \<Rightarrow> (Result option \<times> error option) \<times> TabletServer" where
  "Execute ext qenv now tsv ctx tgt sql bindVariables transactionID reservedID options =
     (if transactionID \<noteq> 0 \<and> reservedID \<noteq> 0 \<and> transactionID \<noteq> reservedID
      then ((None, Some (VtError INTERNAL
                ''transactionID and reserveID must match if both are non-zero'')), tsv)
      else
        let allowOnShutdown = (transactionID \<noteq> 0) in
        execRequest ext now tsv ctx (QueryTimeout tsv) sql bindVariables tgt options
          allowOnShutdown
          (Execute_body qenv tgt sql bindVariables transactionID reservedID options))"

section \<open>The hot-row key\<close>

definition IsEmpty :: "string \<Rightarrow> bool" where
  "IsEmpty tableName = (tableName = [])"

text \<open>
  \<^verbatim>\<open>computeTxSerializerKey\<close> returns the key and the table name. The inner
  \<open>None\<close> branch repeats the nil check of the \<^verbatim>\<open>if\<close> before it.
\<close>

definition computeTxSerializerKey ::
  "QueryEnv \<Rightarrow> Context \<Rightarrow> string \<Rightarrow> bindvars \<Rightarrow> string \<times> string" where
  "computeTxSerializerKey qenv ctx sql0 bindVariables =
     (let sql = fst (SplitMarginComments qenv sql0) in
      case GetPlan qenv ctx sql False of
        Inl err \<Rightarrow> ([], [])
      | Inr plan \<Rightarrow>
          if \<not> (PlanID plan = PlanUpdate \<or> PlanID plan = PlanUpdateLimit
                \<or> PlanID plan = PlanDelete \<or> PlanID plan = PlanDeleteLimit)
          then ([], [])
          else
            let tableName = TableName plan in
            if IsEmpty tableName \<or> WhereClause plan = None then ([], [])
            else (case WhereClause plan of
                    None \<Rightarrow> ([], [])
                  | Some whereClause \<Rightarrow>
                      (case GenerateQuery qenv whereClause bindVariables of
                         Inl err \<Rightarrow> ([], [])
                       | Inr wh \<Rightarrow> (tableName @ wh, tableName))))"

section \<open>Construction\<close>

text \<open>
  \<^verbatim>\<open>NewTabletServer\<close>: the struct literal sets the query timeout and the terse flag from
  the configuration; every other field keeps its zero value (state \<^verbatim>\<open>StateNotConnected\<close>,
  an empty target whose tablet type prints as \<^verbatim>\<open>UNKNOWN\<close>), and the sub-components are
  created unopened.
\<close>

definition NewTabletServer :: "64 word \<Rightarrow> bool \<Rightarrow> TabletServer" where
  "NewTabletServer queryTimeout terseErrors =
     \<lparr>QueryTimeout = queryTimeout, TerseErrors = terseErrors, state = StateNotConnected,
      lameduck = 0,
      target = \<lparr>Keyspace = [], Shard = [], TabletType = OtherType ''UNKNOWN'', Cell = []\<rparr>,
      alsoAllow = [], requests = 0, se = Closed, hw = Closed, hr = Closed,
      vstreamer = Closed, tracker = Closed, watcher = Closed, qe = Closed,
      txThrottler = Closed, te = TxClosed, messager = Closed\<rparr>"

text \<open>Every sub-component is closed.\<close>

definition allClosed :: "TabletServer \<Rightarrow> bool" where
  "allClosed tsv =
     (se tsv = Closed \<and> hw tsv = Closed \<and> hr tsv = Closed \<and> vstreamer tsv = Closed
      \<and> tracker tsv = Closed \<and> watcher tsv = Closed \<and> qe tsv = Closed
      \<and> txThrottler tsv = Closed \<and> te tsv = TxClosed \<and> messager tsv = Closed)"

section \<open>Properties of the request gate\<close>

lemma inAlsoAllow_set: "inAlsoAllow t ts = (t \<in> set ts)"
  by (induction ts) auto

lemma verifyTarget_part_fails:
  "fst (startRequest_verifyTarget ctx tgt tsv) \<noteq> None
    \<Longrightarrow> snd (startRequest_verifyTarget ctx tgt tsv) = tsv"
  by (auto simp: startRequest_verifyTarget_def startRequest_ok_def
      split: option.splits if_splits)

lemma verifyTarget_part_ok:
  "fst (startRequest_verifyTarget ctx tgt tsv) = None
    \<Longrightarrow> snd (startRequest_verifyTarget ctx tgt tsv) = tsv\<lparr>requests := requests tsv + 1\<rparr>"
  by (auto simp: startRequest_verifyTarget_def startRequest_ok_def
      split: option.splits if_splits)

text \<open>
  Claim C1. A call of \<^verbatim>\<open>startRequest\<close> can succeed only in state Serving, or in state
  ShuttingDown when \<^verbatim>\<open>allowOnShutdown\<close> is set; then the drain counter is one higher and
  nothing else has changed. A call that fails leaves the server as it was. In every other
  state the call returns \<^verbatim>\<open>FAILED_PRECONDITION\<close> with the name of the current state in
  the message.
\<close>

theorem startRequest_state_gate:
  "(fst (startRequest ctx tgt allowOnShutdown tsv) = None \<longrightarrow>
      (state tsv = StateServing \<or> (allowOnShutdown \<and> state tsv = StateShuttingDown))
      \<and> snd (startRequest ctx tgt allowOnShutdown tsv) = tsv\<lparr>requests := requests tsv + 1\<rparr>)
   \<and> (fst (startRequest ctx tgt allowOnShutdown tsv) \<noteq> None \<longrightarrow>
      snd (startRequest ctx tgt allowOnShutdown tsv) = tsv)
   \<and> (\<not> (state tsv = StateServing \<or> (allowOnShutdown \<and> state tsv = StateShuttingDown)) \<longrightarrow>
      startRequest ctx tgt allowOnShutdown tsv =
        (Some (VtError FAILED_PRECONDITION
           (''operation not allowed in state '' @ stateName ! state_num (state tsv))), tsv))"
  using verifyTarget_part_fails [of ctx tgt tsv] verifyTarget_part_ok [of ctx tgt tsv]
  by (auto simp: startRequest_def)

text \<open>
  A fresh server (not connected) refuses a request and names its state; a serving one
  admits a local request and counts it.
\<close>

theorem startRequest_state_gate_witness:
  "startRequest Background None False (NewTabletServer 0 False) =
     (Some (VtError FAILED_PRECONDITION ''operation not allowed in state NOT_SERVING''),
      NewTabletServer 0 False)
   \<and> startRequest (WithLocal Background) None False
        ((NewTabletServer 0 False)\<lparr>state := StateServing\<rparr>)
       = (None, (NewTabletServer 0 False)\<lparr>state := StateServing, requests := 1\<rparr>)"
  using startRequest_state_gate [of Background None False "NewTabletServer 0 False"]
    startRequest_state_gate [of "WithLocal Background" None False
      "(NewTabletServer 0 False)\<lparr>state := StateServing\<rparr>"]
  by (simp add: NewTabletServer_def stateName_def startRequest_def
      startRequest_verifyTarget_def startRequest_ok_def)

lemma verifyTarget_cases:
  "(Keyspace t \<noteq> Keyspace (target tsv) \<or> Shard t \<noteq> Shard (target tsv) \<longrightarrow>
      map_option vterrors_Code (verifyTarget ctx (Some t) tsv) = Some INVALID_ARGUMENT)
   \<and> (Keyspace t = Keyspace (target tsv) \<and> Shard t = Shard (target tsv)
        \<and> TabletType t \<noteq> TabletType (target tsv) \<and> TabletType t \<notin> set (alsoAllow tsv) \<longrightarrow>
      map_option vterrors_Code (verifyTarget ctx (Some t) tsv) = Some FAILED_PRECONDITION)
   \<and> (Keyspace t = Keyspace (target tsv) \<and> Shard t = Shard (target tsv)
        \<and> (TabletType t = TabletType (target tsv) \<or> TabletType t \<in> set (alsoAllow tsv)) \<longrightarrow>
      verifyTarget ctx (Some t) tsv = None)
   \<and> verifyTarget ctx None tsv =
       (if IsLocalContext ctx then None else Some (VtError INVALID_ARGUMENT ''No target''))"
  by (auto simp: verifyTarget_def inAlsoAllow_set invalid_tablet_type_def vterrors_Code_def)

lemma startRequest_admitted:
  "state tsv = StateServing \<or> (allowOnShutdown \<and> state tsv = StateShuttingDown) \<Longrightarrow>
     startRequest ctx tgt allowOnShutdown tsv =
       (case verifyTarget ctx tgt tsv of
          None \<Rightarrow> (None, tsv\<lparr>requests := requests tsv + 1\<rparr>)
        | Some err \<Rightarrow> (Some err, tsv))"
  by (auto simp: startRequest_def startRequest_verifyTarget_def startRequest_ok_def
      verifyTarget_def split: option.splits)

text \<open>
  Claim C2. The target check, which \<^verbatim>\<open>verifyTarget\<close> performs in any state and
  \<^verbatim>\<open>startRequest\<close> performs once its state gate has admitted the call (state Serving, or
  ShuttingDown with \<^verbatim>\<open>allowOnShutdown\<close>): for a non-null target it returns
  \<^verbatim>\<open>INVALID_ARGUMENT\<close> when keyspace or shard differ from the server's target,
  \<^verbatim>\<open>FAILED_PRECONDITION\<close> when they agree and the tablet type is neither the server's nor
  in \<^verbatim>\<open>alsoAllow\<close>, and succeeds when they agree and the type is the server's or in
  \<^verbatim>\<open>alsoAllow\<close>; for a null target it succeeds exactly for a local context and otherwise
  returns \<^verbatim>\<open>INVALID_ARGUMENT\<close> with the message "No target".
\<close>

theorem target_check:
  "(Keyspace t \<noteq> Keyspace (target tsv) \<or> Shard t \<noteq> Shard (target tsv) \<longrightarrow>
      map_option vterrors_Code (verifyTarget ctx (Some t) tsv) = Some INVALID_ARGUMENT)
   \<and> (Keyspace t = Keyspace (target tsv) \<and> Shard t = Shard (target tsv)
        \<and> TabletType t \<noteq> TabletType (target tsv) \<and> TabletType t \<notin> set (alsoAllow tsv) \<longrightarrow>
      map_option vterrors_Code (verifyTarget ctx (Some t) tsv) = Some FAILED_PRECONDITION)
   \<and> (Keyspace t = Keyspace (target tsv) \<and> Shard t = Shard (target tsv)
        \<and> (TabletType t = TabletType (target tsv) \<or> TabletType t \<in> set (alsoAllow tsv)) \<longrightarrow>
      verifyTarget ctx (Some t) tsv = None)
   \<and> verifyTarget ctx None tsv =
       (if IsLocalContext ctx then None else Some (VtError INVALID_ARGUMENT ''No target''))
   \<and> (state tsv = StateServing \<or> (allowOnShutdown \<and> state tsv = StateShuttingDown) \<longrightarrow>
       (Keyspace t \<noteq> Keyspace (target tsv) \<or> Shard t \<noteq> Shard (target tsv) \<longrightarrow>
          map_option vterrors_Code (fst (startRequest ctx (Some t) allowOnShutdown tsv))
            = Some INVALID_ARGUMENT)
       \<and> (Keyspace t = Keyspace (target tsv) \<and> Shard t = Shard (target tsv)
            \<and> TabletType t \<noteq> TabletType (target tsv)
            \<and> TabletType t \<notin> set (alsoAllow tsv) \<longrightarrow>
          map_option vterrors_Code (fst (startRequest ctx (Some t) allowOnShutdown tsv))
            = Some FAILED_PRECONDITION)
       \<and> (Keyspace t = Keyspace (target tsv) \<and> Shard t = Shard (target tsv)
            \<and> (TabletType t = TabletType (target tsv)
                \<or> TabletType t \<in> set (alsoAllow tsv)) \<longrightarrow>
          startRequest ctx (Some t) allowOnShutdown tsv
            = (None, tsv\<lparr>requests := requests tsv + 1\<rparr>))
       \<and> startRequest ctx None allowOnShutdown tsv =
           (if IsLocalContext ctx then (None, tsv\<lparr>requests := requests tsv + 1\<rparr>)
            else (Some (VtError INVALID_ARGUMENT ''No target''), tsv)))"
proof -
  note vt = verifyTarget_cases [of t tsv ctx]
  have sr: "state tsv = StateServing \<or> (allowOnShutdown \<and> state tsv = StateShuttingDown) \<Longrightarrow>
      startRequest ctx g allowOnShutdown tsv =
       (case verifyTarget ctx g tsv of
          None \<Rightarrow> (None, tsv\<lparr>requests := requests tsv + 1\<rparr>)
        | Some err \<Rightarrow> (Some err, tsv))" for g
    by (rule startRequest_admitted)
  show ?thesis
  proof (intro conjI impI)
    assume adm: "state tsv = StateServing \<or> (allowOnShutdown \<and> state tsv = StateShuttingDown)"
    show "startRequest ctx None allowOnShutdown tsv =
           (if IsLocalContext ctx then (None, tsv\<lparr>requests := requests tsv + 1\<rparr>)
            else (Some (VtError INVALID_ARGUMENT ''No target''), tsv))"
      using vt by (simp add: sr [OF adm])
  next
    assume adm: "state tsv = StateServing \<or> (allowOnShutdown \<and> state tsv = StateShuttingDown)"
      and c: "Keyspace t \<noteq> Keyspace (target tsv) \<or> Shard t \<noteq> Shard (target tsv)"
    with vt have "map_option vterrors_Code (verifyTarget ctx (Some t) tsv) = Some INVALID_ARGUMENT"
      by blast
    then show "map_option vterrors_Code (fst (startRequest ctx (Some t) allowOnShutdown tsv))
            = Some INVALID_ARGUMENT"
      by (auto simp: sr [OF adm] split: option.splits)
  next
    assume adm: "state tsv = StateServing \<or> (allowOnShutdown \<and> state tsv = StateShuttingDown)"
      and c: "Keyspace t = Keyspace (target tsv) \<and> Shard t = Shard (target tsv)
            \<and> TabletType t \<noteq> TabletType (target tsv)
            \<and> TabletType t \<notin> set (alsoAllow tsv)"
    with vt have "map_option vterrors_Code (verifyTarget ctx (Some t) tsv)
        = Some FAILED_PRECONDITION"
      by blast
    then show "map_option vterrors_Code (fst (startRequest ctx (Some t) allowOnShutdown tsv))
            = Some FAILED_PRECONDITION"
      by (auto simp: sr [OF adm] split: option.splits)
  next
    assume adm: "state tsv = StateServing \<or> (allowOnShutdown \<and> state tsv = StateShuttingDown)"
      and c: "Keyspace t = Keyspace (target tsv) \<and> Shard t = Shard (target tsv)
            \<and> (TabletType t = TabletType (target tsv)
                \<or> TabletType t \<in> set (alsoAllow tsv))"
    with vt have "verifyTarget ctx (Some t) tsv = None"
      by blast
    then show "startRequest ctx (Some t) allowOnShutdown tsv
            = (None, tsv\<lparr>requests := requests tsv + 1\<rparr>)"
      by (simp add: sr [OF adm])
  qed (use vt in blast)+
qed

text \<open>
  With target \<open>(ks, 0, REPLICA)\<close> and \<^verbatim>\<open>alsoAllow = [BATCH]\<close>, a serving server refuses
  another keyspace and a master request, admits a batch request, and refuses a missing
  target from a context that is not local.
\<close>

theorem target_check_witness:
  "(let tsv = (NewTabletServer 0 False)
        \<lparr>state := StateServing, alsoAllow := [BATCH],
         target := \<lparr>Keyspace = ''ks'', Shard = ''0'', TabletType = REPLICA, Cell = ''c''\<rparr>\<rparr>
    in map_option vterrors_Code (fst (startRequest Background
            (Some \<lparr>Keyspace = ''other'', Shard = ''0'', TabletType = REPLICA, Cell = ''c''\<rparr>)
            False tsv)) = Some INVALID_ARGUMENT
       \<and> map_option vterrors_Code (fst (startRequest Background
            (Some \<lparr>Keyspace = ''ks'', Shard = ''0'', TabletType = MASTER, Cell = ''c''\<rparr>)
            False tsv)) = Some FAILED_PRECONDITION
       \<and> startRequest Background
            (Some \<lparr>Keyspace = ''ks'', Shard = ''0'', TabletType = BATCH, Cell = ''c''\<rparr>)
            False tsv = (None, tsv\<lparr>requests := 1\<rparr>)
       \<and> startRequest Background None False tsv
            = (Some (VtError INVALID_ARGUMENT ''No target''), tsv)
       \<and> verifyTarget (WithLocal Background) None tsv = None)"
  using target_check [of "\<lparr>Keyspace = ''other'', Shard = ''0'', TabletType = REPLICA, Cell = ''c''\<rparr>"
      "(NewTabletServer 0 False)
        \<lparr>state := StateServing, alsoAllow := [BATCH],
         target := \<lparr>Keyspace = ''ks'', Shard = ''0'', TabletType = REPLICA, Cell = ''c''\<rparr>\<rparr>"
      Background False]
    target_check [of "\<lparr>Keyspace = ''ks'', Shard = ''0'', TabletType = MASTER, Cell = ''c''\<rparr>"
      "(NewTabletServer 0 False)
        \<lparr>state := StateServing, alsoAllow := [BATCH],
         target := \<lparr>Keyspace = ''ks'', Shard = ''0'', TabletType = REPLICA, Cell = ''c''\<rparr>\<rparr>"
      Background False]
    target_check [of "\<lparr>Keyspace = ''ks'', Shard = ''0'', TabletType = BATCH, Cell = ''c''\<rparr>"
      "(NewTabletServer 0 False)
        \<lparr>state := StateServing, alsoAllow := [BATCH],
         target := \<lparr>Keyspace = ''ks'', Shard = ''0'', TabletType = REPLICA, Cell = ''c''\<rparr>\<rparr>"
      Background False]
    target_check [of "\<lparr>Keyspace = ''ks'', Shard = ''0'', TabletType = BATCH, Cell = ''c''\<rparr>"
      "(NewTabletServer 0 False)
        \<lparr>state := StateServing, alsoAllow := [BATCH],
         target := \<lparr>Keyspace = ''ks'', Shard = ''0'', TabletType = REPLICA, Cell = ''c''\<rparr>\<rparr>"
      "WithLocal Background" False]
  by (simp add: NewTabletServer_def Let_def)

section \<open>Properties of the state machine\<close>

text \<open>
  Claim C3. \<^verbatim>\<open>decideAction\<close> follows the transition table: from NotConnected it selects
  FullStart iff serving is wanted and otherwise none; from NotServing it selects
  ServeNewType iff serving is wanted and otherwise none; from Serving it selects
  GracefulStop when serving is not wanted, none when serving is wanted and the tablet type
  is the current one, and ServeNewType otherwise; from Transitioning and ShuttingDown it
  fails with \<^verbatim>\<open>FAILED_PRECONDITION\<close> on every input. No other state returns an error.
\<close>

theorem decideAction_table:
  "(state tsv = StateNotConnected \<longrightarrow>
      fst (decideAction tabletType serving also tsv)
        = (if serving then actionFullStart else actionNone)
      \<and> fst (snd (decideAction tabletType serving also tsv)) = None)
   \<and> (state tsv = StateNotServing \<longrightarrow>
      fst (decideAction tabletType serving also tsv)
        = (if serving then actionServeNewType else actionNone)
      \<and> fst (snd (decideAction tabletType serving also tsv)) = None)
   \<and> (state tsv = StateServing \<longrightarrow>
      fst (decideAction tabletType serving also tsv)
        = (if \<not> serving then actionGracefulStop
           else if TabletType (target tsv) = tabletType then actionNone
           else actionServeNewType)
      \<and> fst (snd (decideAction tabletType serving also tsv)) = None)
   \<and> (state tsv = StateTransitioning \<or> state tsv = StateShuttingDown \<longrightarrow>
      fst (decideAction tabletType serving also tsv) = actionNone
      \<and> map_option vterrors_Code (fst (snd (decideAction tabletType serving also tsv)))
          = Some FAILED_PRECONDITION)"
  by (cases "state tsv") (auto simp: decideAction_def Let_def setState_def vterrors_Code_def)

text \<open>One row of the table for each state, on servers that differ in the state only.\<close>

theorem decideAction_table_witness:
  "fst (decideAction MASTER True [] (NewTabletServer 0 False)) = actionFullStart
   \<and> fst (decideAction MASTER False [] (NewTabletServer 0 False)) = actionNone
   \<and> fst (decideAction (OtherType ''UNKNOWN'') True []
         ((NewTabletServer 0 False)\<lparr>state := StateServing\<rparr>)) = actionNone
   \<and> fst (decideAction MASTER True [] ((NewTabletServer 0 False)\<lparr>state := StateServing\<rparr>))
       = actionServeNewType
   \<and> fst (decideAction MASTER True [] ((NewTabletServer 0 False)\<lparr>state := StateNotServing\<rparr>))
       = actionServeNewType
   \<and> fst (decideAction MASTER False [] ((NewTabletServer 0 False)\<lparr>state := StateServing\<rparr>))
       = actionGracefulStop
   \<and> map_option vterrors_Code (fst (snd (decideAction MASTER True []
         ((NewTabletServer 0 False)\<lparr>state := StateTransitioning\<rparr>)))) = Some FAILED_PRECONDITION
   \<and> map_option vterrors_Code (fst (snd (decideAction MASTER False []
         ((NewTabletServer 0 False)\<lparr>state := StateShuttingDown\<rparr>)))) = Some FAILED_PRECONDITION"
  using decideAction_table [of "NewTabletServer 0 False" MASTER True "[]"]
    decideAction_table [of "NewTabletServer 0 False" MASTER False "[]"]
    decideAction_table [of "(NewTabletServer 0 False)\<lparr>state := StateServing\<rparr>"
      "OtherType ''UNKNOWN''" True "[]"]
    decideAction_table [of "(NewTabletServer 0 False)\<lparr>state := StateServing\<rparr>" MASTER True "[]"]
    decideAction_table [of "(NewTabletServer 0 False)\<lparr>state := StateNotServing\<rparr>" MASTER True "[]"]
    decideAction_table [of "(NewTabletServer 0 False)\<lparr>state := StateServing\<rparr>" MASTER False "[]"]
    decideAction_table [of "(NewTabletServer 0 False)\<lparr>state := StateTransitioning\<rparr>" MASTER True "[]"]
    decideAction_table [of "(NewTabletServer 0 False)\<lparr>state := StateShuttingDown\<rparr>" MASTER False "[]"]
  by (simp add: NewTabletServer_def)

text \<open>
  Claim C9. A \<^verbatim>\<open>SetServingType\<close> call made in state Transitioning or ShuttingDown fails
  with \<^verbatim>\<open>FAILED_PRECONDITION\<close>, and it is not free of side effects: the server it leaves
  behind has the requested \<^verbatim>\<open>alsoAllow\<close> list and the requested tablet type in its target
  (written by \<^verbatim>\<open>decideAction\<close> before the state is examined), and a cleared lameduck flag
  (the deferred \<^verbatim>\<open>ExitLameduck\<close>).
\<close>

theorem SetServingType_failure_side_effects:
  assumes "state tsv = StateTransitioning \<or> state tsv = StateShuttingDown"
  shows "SetServingType env tabletType serving also tsv =
     Some (False,
           Some (VtError FAILED_PRECONDITION
             (''cannot SetServingType, current state: '' @ stateName ! state_num (state tsv))),
           tsv\<lparr>alsoAllow := also, target := (target tsv)\<lparr>TabletType := tabletType\<rparr>,
               lameduck := 0\<rparr>)"
  using assms
  by (auto simp: SetServingType_def decideAction_def Let_def ExitLameduck_def)

text \<open>
  A replica in lameduck that is shutting down is asked to become a master that also allows
  batch: the call fails, and the three fields have changed.
\<close>

theorem SetServingType_failure_side_effects_witness:
  "(let tsv = (EnterLameduck (NewTabletServer 0 False))
        \<lparr>state := StateShuttingDown,
         target := \<lparr>Keyspace = ''ks'', Shard = ''0'', TabletType = REPLICA, Cell = ''c''\<rparr>\<rparr>;
        env = \<lparr>NewDBConnection = None, se_Open = None, qe_Open = None,
               txThrottler_Open = None, te_Init = None, hw_Open = None\<rparr>
    in state tsv = StateShuttingDown
       \<and> SetServingType env MASTER True [BATCH] tsv =
           Some (False,
             Some (VtError FAILED_PRECONDITION
               ''cannot SetServingType, current state: SHUTTING_DOWN''),
             tsv\<lparr>alsoAllow := [BATCH],
                 target := \<lparr>Keyspace = ''ks'', Shard = ''0'', TabletType = MASTER, Cell = ''c''\<rparr>,
                 lameduck := 0\<rparr>)
       \<and> alsoAllow tsv = [] \<and> TabletType (target tsv) = REPLICA \<and> lameduck tsv = 1)"
  using SetServingType_failure_side_effects [of
      "(EnterLameduck (NewTabletServer 0 False))
        \<lparr>state := StateShuttingDown,
         target := \<lparr>Keyspace = ''ks'', Shard = ''0'', TabletType = REPLICA, Cell = ''c''\<rparr>\<rparr>"
      "\<lparr>NewDBConnection = None, se_Open = None, qe_Open = None,
               txThrottler_Open = None, te_Init = None, hw_Open = None\<rparr>"
      MASTER True "[BATCH]"]
  by (simp add: NewTabletServer_def EnterLameduck_def Let_def stateName_def)

text \<open>
  Claim C10. The name table gives NotConnected, NotServing and Transitioning the one name
  \<^verbatim>\<open>NOT_SERVING\<close>; only Serving is named \<^verbatim>\<open>SERVING\<close> and only ShuttingDown is named
  \<^verbatim>\<open>SHUTTING_DOWN\<close>. So \<^verbatim>\<open>GetState\<close> returns the same string in the three states, and
  the refusal of \<^verbatim>\<open>startRequest\<close> is the same error in the three states.
\<close>

theorem stateName_overlap:
  "stateName ! state_num StateNotConnected = ''NOT_SERVING''
   \<and> stateName ! state_num StateNotServing = ''NOT_SERVING''
   \<and> stateName ! state_num StateTransitioning = ''NOT_SERVING''
   \<and> (stateName ! state_num st = ''SERVING'') = (st = StateServing)
   \<and> (stateName ! state_num st = ''SHUTTING_DOWN'') = (st = StateShuttingDown)
   \<and> GetState (tsv\<lparr>state := StateNotConnected\<rparr>) = GetState (tsv\<lparr>state := StateNotServing\<rparr>)
   \<and> GetState (tsv\<lparr>state := StateNotServing\<rparr>) = GetState (tsv\<lparr>state := StateTransitioning\<rparr>)
   \<and> fst (startRequest ctx tgt allowOnShutdown (tsv\<lparr>state := StateNotConnected\<rparr>))
       = Some (VtError FAILED_PRECONDITION ''operation not allowed in state NOT_SERVING'')
   \<and> fst (startRequest ctx tgt allowOnShutdown (tsv\<lparr>state := StateNotServing\<rparr>))
       = Some (VtError FAILED_PRECONDITION ''operation not allowed in state NOT_SERVING'')
   \<and> fst (startRequest ctx tgt allowOnShutdown (tsv\<lparr>state := StateTransitioning\<rparr>))
       = Some (VtError FAILED_PRECONDITION ''operation not allowed in state NOT_SERVING'')"
  by (cases st) (simp_all add: stateName_def GetState_def startRequest_def)

theorem stateName_overlap_witness:
  "GetState (NewTabletServer 0 False) = ''NOT_SERVING''
   \<and> GetState ((NewTabletServer 0 False)\<lparr>state := StateNotServing\<rparr>) = ''NOT_SERVING''
   \<and> GetState ((NewTabletServer 0 False)\<lparr>state := StateTransitioning\<rparr>) = ''NOT_SERVING''
   \<and> GetState ((NewTabletServer 0 False)\<lparr>state := StateServing\<rparr>) = ''SERVING''
   \<and> GetState ((NewTabletServer 0 False)\<lparr>state := StateShuttingDown\<rparr>) = ''SHUTTING_DOWN''"
  using stateName_overlap [of StateServing "NewTabletServer 0 False" Background None False]
    stateName_overlap [of StateShuttingDown "NewTabletServer 0 False" Background None False]
  by (simp add: GetState_def NewTabletServer_def)

section \<open>Failure of a full start\<close>

lemma closeAll_allClosed:
  "allClosed (closeAll tsv) \<and> state (closeAll tsv) = StateNotConnected"
  by (simp add: closeAll_def allClosed_def transition_def setState_def)

lemma ExitLameduck_keeps:
  "allClosed (ExitLameduck tsv) = allClosed tsv" "state (ExitLameduck tsv) = state tsv"
  by (simp_all add: ExitLameduck_def allClosed_def)

lemma decideAction_NotConnected:
  "state tsv = StateNotConnected \<Longrightarrow>
     decideAction tabletType True also tsv =
       (actionFullStart, None,
        setState StateTransitioning
          (tsv\<lparr>alsoAllow := also, target := (target tsv)\<lparr>TabletType := tabletType\<rparr>\<rparr>))"
  by (simp add: decideAction_def Let_def)

lemma serveNewType_fails:
  "TabletType (target tsv) = MASTER \<Longrightarrow> hw_Open env \<noteq> None
     \<Longrightarrow> fst (serveNewType env tsv) \<noteq> None"
  by (auto simp: serveNewType_def Let_def split: option.splits)

lemma fullStart_fails:
  assumes "NewDBConnection env \<noteq> None \<or> se_Open env \<noteq> None \<or> qe_Open env \<noteq> None
           \<or> txThrottler_Open env \<noteq> None \<or> te_Init env \<noteq> None
           \<or> (TabletType (target tsv) = MASTER \<and> hw_Open env \<noteq> None)"
  shows "fst (fullStart env tsv) \<noteq> None"
proof (cases "NewDBConnection env = None \<and> se_Open env = None \<and> qe_Open env = None
           \<and> txThrottler_Open env = None \<and> te_Init env = None")
  case True
  with assms have m: "TabletType (target tsv) = MASTER" and h: "hw_Open env \<noteq> None"
    by auto
  let ?t = "tsv\<lparr>se := Opened, vstreamer := Opened, qe := Opened, txThrottler := Opened,
                 te := TxInitialized\<rparr>"
  have "fullStart env tsv = serveNewType env ?t"
    using True by (simp add: fullStart_def Let_def)
  moreover have "fst (serveNewType env ?t) \<noteq> None"
    by (rule serveNewType_fails) (simp_all add: m h)
  ultimately show ?thesis by simp
next
  case False
  then show ?thesis
    by (auto simp: fullStart_def Let_def split: option.splits prod.splits)
qed

text \<open>Conversely, a full start returns an error only when one of its steps does.\<close>

lemma fullStart_succeeds:
  assumes "NewDBConnection env = None" and "se_Open env = None" and "qe_Open env = None"
    and "txThrottler_Open env = None" and "te_Init env = None"
    and "TabletType (target tsv) \<noteq> MASTER \<or> hw_Open env = None"
  shows "fst (fullStart env tsv) = None"
  using assms by (auto simp: fullStart_def serveNewType_def Let_def)

lemma fullStart_fails_only:
  assumes "fst (fullStart env tsv) \<noteq> None"
  shows "NewDBConnection env \<noteq> None \<or> se_Open env \<noteq> None \<or> qe_Open env \<noteq> None
           \<or> txThrottler_Open env \<noteq> None \<or> te_Init env \<noteq> None
           \<or> (TabletType (target tsv) = MASTER \<and> hw_Open env \<noteq> None)"
  using assms fullStart_succeeds [of env tsv] by argo

lemma SetServingType_fullStart_error:
  assumes "state tsv = StateNotConnected"
    and "fullStart env (snd (snd (decideAction tabletType True also tsv))) = (Some err, tsv2)"
  shows "SetServingType env tabletType True also tsv
           = Some (True, Some err, ExitLameduck (closeAll tsv2))"
  using assms by (simp add: SetServingType_def decideAction_NotConnected)

text \<open>
  Claim C4. \<^verbatim>\<open>SetServingType\<close> runs \<^verbatim>\<open>fullStart\<close> when serving is requested of a server
  that is not connected. If a step of it fails (the database connection, opening the schema
  engine, the query engine or the transaction throttler, initialising the transaction
  engine, or, for a master, the heartbeat writer that the delegated \<^verbatim>\<open>serveNewType\<close>
  opens), then \<^verbatim>\<open>fullStart\<close> returns an error, \<^verbatim>\<open>SetServingType\<close> returns that error
  after \<^verbatim>\<open>closeAll\<close> has run on the server the failed start left, every sub-component is
  closed, and the final state is NotConnected.
\<close>

theorem fullStart_failure_closes_all:
  assumes nc: "state tsv = StateNotConnected"
    and fails: "NewDBConnection env \<noteq> None \<or> se_Open env \<noteq> None \<or> qe_Open env \<noteq> None
           \<or> txThrottler_Open env \<noteq> None \<or> te_Init env \<noteq> None
           \<or> (tabletType = MASTER \<and> hw_Open env \<noteq> None)"
  shows "\<exists>err tsv2.
           fullStart env (snd (snd (decideAction tabletType True also tsv))) = (Some err, tsv2)
           \<and> SetServingType env tabletType True also tsv
               = Some (True, Some err, ExitLameduck (closeAll tsv2))
           \<and> allClosed (ExitLameduck (closeAll tsv2))
           \<and> state (ExitLameduck (closeAll tsv2)) = StateNotConnected"
proof -
  let ?t1 = "snd (snd (decideAction tabletType True also tsv))"
  have ty: "TabletType (target ?t1) = tabletType"
    using nc by (simp add: decideAction_NotConnected setState_def)
  have "fst (fullStart env ?t1) \<noteq> None"
    by (rule fullStart_fails) (use fails ty in auto)
  then obtain err tsv2 where fs: "fullStart env ?t1 = (Some err, tsv2)"
    by (cases "fullStart env ?t1") auto
  have "SetServingType env tabletType True also tsv
          = Some (True, Some err, ExitLameduck (closeAll tsv2))"
    by (rule SetServingType_fullStart_error [OF nc fs])
  with fs closeAll_allClosed [of tsv2] show ?thesis
    by (simp add: ExitLameduck_keeps)
qed

text \<open>
  A fresh server is started as a master; the schema engine opens, the query engine fails
  half open. The call reports the error, and the server is back in its fresh state (with
  the requested tablet type), the schema engine and the stream engine closed again.
\<close>

theorem fullStart_failure_closes_all_witness:
  "(let env = \<lparr>NewDBConnection = None, se_Open = None,
               qe_Open = Some (VtError UNAVAILABLE ''no pool'', Opened),
               txThrottler_Open = None, te_Init = None, hw_Open = None\<rparr>
    in state (NewTabletServer 0 False) = StateNotConnected
       \<and> qe_Open env \<noteq> None
       \<and> SetServingType env MASTER True [] (NewTabletServer 0 False)
           = Some (True, Some (VtError UNAVAILABLE ''no pool''),
               (NewTabletServer 0 False)
                 \<lparr>target := (target (NewTabletServer 0 False))\<lparr>TabletType := MASTER\<rparr>\<rparr>)
       \<and> allClosed ((NewTabletServer 0 False)
                 \<lparr>target := (target (NewTabletServer 0 False))\<lparr>TabletType := MASTER\<rparr>\<rparr>))"
  using fullStart_failure_closes_all [of "NewTabletServer 0 False"
      "\<lparr>NewDBConnection = None, se_Open = None,
               qe_Open = Some (VtError UNAVAILABLE ''no pool'', Opened),
               txThrottler_Open = None, te_Init = None, hw_Open = None\<rparr>" MASTER "[]"]
  by (simp add: NewTabletServer_def Let_def decideAction_def setState_def fullStart_def
      closeAll_def transition_def ExitLameduck_def allClosed_def)

section \<open>Properties of the request wrapper\<close>

text \<open>
  Claim C5. An \<^verbatim>\<open>Execute\<close> call whose transaction id and reserved id are both non-zero
  and different returns a nil result and an \<^verbatim>\<open>INTERNAL\<close> error; the server is unchanged
  (no request was started) and the query engine is not consulted.
\<close>

theorem Execute_rejects_mismatched_ids:
  assumes "transactionID \<noteq> 0" and "reservedID \<noteq> 0" and "transactionID \<noteq> reservedID"
  shows "Execute ext qenv now tsv ctx tgt sql bindVariables transactionID reservedID options
           = ((None, Some (VtError INTERNAL
                 ''transactionID and reserveID must match if both are non-zero'')), tsv)"
  using assms by (simp add: Execute_def)

text \<open>
  Transaction 7 on reserved connection 9, sent to a serving server whose query engine
  would answer: the call is refused and the drain counter stays at zero.
\<close>

theorem Execute_rejects_mismatched_ids_witness:
  "(let ext = \<lparr>errno = (\<lambda>name. 0), SQLError_Error = (\<lambda>n st m. m),
               fmt_q = (\<lambda>s. s), fmt_v = (\<lambda>v. [])\<rparr>;
        qenv = \<lparr>SplitMarginComments = (\<lambda>s. (s, ([], []))),
                GetPlan = (\<lambda>c q skip. Inr \<lparr>PlanID = PlanSelect, TableName = ''dual'',
                                               WhereClause = None\<rparr>),
                qre_Execute = (\<lambda>q. Inr (Result [''1''] [[''1'']])),
                StripMetadata = (\<lambda>opts r. r),
                GenerateQuery = (\<lambda>pq bv. Inr [])\<rparr>;
        tsv = (NewTabletServer 0 False)\<lparr>state := StateServing\<rparr>
    in (7 :: 64 word) \<noteq> 0 \<and> (9 :: 64 word) \<noteq> 0 \<and> (7 :: 64 word) \<noteq> 9
       \<and> Execute ext qenv 1000 tsv (WithLocal Background) None ''select 1 from dual'' [] 7 9 None
           = ((None, Some (VtError INTERNAL
                 ''transactionID and reserveID must match if both are non-zero'')), tsv)
       \<and> requests tsv = 0)"
  using Execute_rejects_mismatched_ids [where transactionID = 7 and reservedID = 9
      and ext = "\<lparr>errno = (\<lambda>name. 0), SQLError_Error = (\<lambda>n st m. m),
               fmt_q = (\<lambda>s. s), fmt_v = (\<lambda>v. [])\<rparr>"
      and qenv = "\<lparr>SplitMarginComments = (\<lambda>s. (s, ([], []))),
                GetPlan = (\<lambda>c q skip. Inr \<lparr>PlanID = PlanSelect, TableName = ''dual'',
                                               WhereClause = None\<rparr>),
                qre_Execute = (\<lambda>q. Inr (Result [''1''] [[''1'']])),
                StripMetadata = (\<lambda>opts r. r),
                GenerateQuery = (\<lambda>pq bv. Inr [])\<rparr>"
      and now = 1000 and tsv = "(NewTabletServer 0 False)\<lparr>state := StateServing\<rparr>"
      and ctx = "WithLocal Background" and tgt = None and sql = "''select 1 from dual''"
      and bindVariables = "[]" and options = None]
  by (simp add: Let_def NewTabletServer_def)

lemma WithDeadline_neq: "WithDeadline d c \<noteq> c"
  by (induction c arbitrary: d) auto

text \<open>
  Claim C8. \<^verbatim>\<open>withTimeout\<close> returns the context it was given exactly when the timeout
  is zero, or the workload of the options is DBA, or the context is local; in every other
  case it returns that context wrapped with a deadline at \<open>now + timeout\<close>.
\<close>

theorem withTimeout_spec:
  "(withTimeout now ctx timeout options = ctx)
      = (timeout = 0 \<or> GetWorkload options = DBA \<or> IsLocalContext ctx)
   \<and> (\<not> (timeout = 0 \<or> GetWorkload options = DBA \<or> IsLocalContext ctx) \<longrightarrow>
        withTimeout now ctx timeout options = WithDeadline (now + sint timeout) ctx)"
  by (auto simp: withTimeout_def context_WithTimeout_def WithDeadline_neq)

theorem withTimeout_spec_witness:
  "withTimeout 1000 Background 30 None = WithDeadline 1030 Background
   \<and> withTimeout 1000 Background 30 (Some \<lparr>Workload = DBA, SkipQueryPlanCache = False\<rparr>)
       = Background
   \<and> withTimeout 1000 (WithLocal Background) 30 None = WithLocal Background
   \<and> withTimeout 1000 Background 0 None = Background"
  using withTimeout_spec [of 1000 Background 30 None]
    withTimeout_spec [of 1000 Background 30 "Some \<lparr>Workload = DBA, SkipQueryPlanCache = False\<rparr>"]
    withTimeout_spec [of 1000 "WithLocal Background" 30 None]
    withTimeout_spec [of 1000 Background 0 None]
  by (simp add: GetWorkload_def)

section \<open>Properties of the hot-row key\<close>

text \<open>
  Claim C7. \<^verbatim>\<open>computeTxSerializerKey\<close> returns the empty key unless the plan of the
  query (after the margin comments are split off) has kind Update, UpdateLimit, Delete or
  DeleteLimit, a non-empty table name and a where-clause, and the where-clause renders
  with the bind variables of the call; when all of these hold, the key is the table name
  followed by the rendered where-clause, and the table string is the table name.
\<close>

theorem computeTxSerializerKey_spec:
  "(fst (computeTxSerializerKey qenv ctx sql bindVariables) \<noteq> [] \<longrightarrow>
      (\<exists>plan whereClause wh.
         GetPlan qenv ctx (fst (SplitMarginComments qenv sql)) False = Inr plan
         \<and> PlanID plan \<in> {PlanUpdate, PlanUpdateLimit, PlanDelete, PlanDeleteLimit}
         \<and> TableName plan \<noteq> []
         \<and> WhereClause plan = Some whereClause
         \<and> GenerateQuery qenv whereClause bindVariables = Inr wh))
   \<and> (GetPlan qenv ctx (fst (SplitMarginComments qenv sql)) False = Inr plan
       \<and> PlanID plan \<in> {PlanUpdate, PlanUpdateLimit, PlanDelete, PlanDeleteLimit}
       \<and> TableName plan \<noteq> []
       \<and> WhereClause plan = Some whereClause
       \<and> GenerateQuery qenv whereClause bindVariables = Inr wh \<longrightarrow>
      computeTxSerializerKey qenv ctx sql bindVariables = (TableName plan @ wh, TableName plan))"
  by (auto simp: computeTxSerializerKey_def Let_def IsEmpty_def
      split: sum.splits option.splits if_splits)

text \<open>
  An update of table \<open>t1\<close> whose where-clause renders gets the key of the source's own
  example; the same engine with a select plan gives the empty key.
\<close>

theorem computeTxSerializerKey_spec_witness:
  "(let plan = \<lparr>PlanID = PlanUpdate, TableName = ''t1'',
                 WhereClause = Some (ParsedQuery '' where id = :id and sub_id = :sub'')\<rparr>;
        qenv = \<lparr>SplitMarginComments = (\<lambda>s. (s, ([], []))),
                GetPlan = (\<lambda>c q skip. Inr plan),
                qre_Execute = (\<lambda>q. Inr (Result [] [])),
                StripMetadata = (\<lambda>opts r. r),
                GenerateQuery = (\<lambda>pq bv. Inr '' where id = 1 and sub_id = 2'')\<rparr>;
        sel = qenv\<lparr>GetPlan := (\<lambda>c q skip. Inr (plan\<lparr>PlanID := PlanSelect\<rparr>))\<rparr>
    in computeTxSerializerKey qenv Background ''update t1 set x = 3 where id = :id and sub_id = :sub''
          [(''id'', BindVariable ''1''), (''sub'', BindVariable ''2'')]
         = (''t1 where id = 1 and sub_id = 2'', ''t1'')
       \<and> fst (computeTxSerializerKey sel Background ''select x from t1 where id = :id''
          [(''id'', BindVariable ''1'')]) = [])"
  using computeTxSerializerKey_spec [of
      "\<lparr>SplitMarginComments = (\<lambda>s. (s, ([], []))),
        GetPlan = (\<lambda>c q skip. Inr \<lparr>PlanID = PlanUpdate, TableName = ''t1'',
                 WhereClause = Some (ParsedQuery '' where id = :id and sub_id = :sub'')\<rparr>),
        qre_Execute = (\<lambda>q. Inr (Result [] [])),
        StripMetadata = (\<lambda>opts r. r),
        GenerateQuery = (\<lambda>pq bv. Inr '' where id = 1 and sub_id = 2'')\<rparr>"
      Background "''update t1 set x = 3 where id = :id and sub_id = :sub''"
      "[(''id'', BindVariable ''1''), (''sub'', BindVariable ''2'')]"
      "\<lparr>PlanID = PlanUpdate, TableName = ''t1'',
                 WhereClause = Some (ParsedQuery '' where id = :id and sub_id = :sub'')\<rparr>"
      "ParsedQuery '' where id = :id and sub_id = :sub''" "'' where id = 1 and sub_id = 2''"]
    computeTxSerializerKey_spec [of
      "\<lparr>SplitMarginComments = (\<lambda>s. (s, ([], []))),
        GetPlan = (\<lambda>c q skip. Inr \<lparr>PlanID = PlanSelect, TableName = ''t1'',
                 WhereClause = Some (ParsedQuery '' where id = :id and sub_id = :sub'')\<rparr>),
        qre_Execute = (\<lambda>q. Inr (Result [] [])),
        StripMetadata = (\<lambda>opts r. r),
        GenerateQuery = (\<lambda>pq bv. Inr '' where id = 1 and sub_id = 2'')\<rparr>"
      Background "''select x from t1 where id = :id''" "[(''id'', BindVariable ''1'')]"]
  by (simp add: Let_def)

section \<open>Terse errors\<close>

lemma show_int_1062: "show_int 1062 = ''1062''"
  by (simp add: show_int_def show_nat.simps digit_def)

lemma queryAsString_nil:
  "queryAsString ext sql [] = ''Sql: '' @ fmt_q ext sql @ '', BindVars: {}''"
  by (simp add: queryAsString_def)

lemma terse_SQLError:
  assumes "TerseErrors tsv" and "bindVariables \<noteq> []"
    and "convertErrorCode ext (SQLError errnum sqlState message) \<noteq> FAILED_PRECONDITION"
  shows "map_option (error_Error ext)
           (convertAndLogError ext tsv ctx sql bindVariables
              (Some (SQLError errnum sqlState message)))
         = Some (''(errno '' @ show_int errnum @ '') (sqlstate '' @ sqlState @ '')''
                  @ callerID_of ctx @ '': Sql: '' @ fmt_q ext sql @ '', BindVars: {}'')"
  using assms by (simp add: convertAndLogError_def Let_def queryAsString_nil error_Error_def)

lemma terse_SQLError_two_calls:
  assumes "TerseErrors tsv" and "bindVariables \<noteq> []"
    and "convertErrorCode ext (SQLError errnum sqlState message) \<noteq> FAILED_PRECONDITION"
    and "bindVariables' \<noteq> []"
    and "convertErrorCode ext (SQLError errnum sqlState message') \<noteq> FAILED_PRECONDITION"
  shows "map_option (error_Error ext)
           (convertAndLogError ext tsv ctx sql bindVariables'
              (Some (SQLError errnum sqlState message')))
         = map_option (error_Error ext)
             (convertAndLogError ext tsv ctx sql bindVariables
                (Some (SQLError errnum sqlState message)))"
proof -
  have "map_option (error_Error ext)
           (convertAndLogError ext tsv ctx sql bindVariables'
              (Some (SQLError errnum sqlState message')))
         = Some (''(errno '' @ show_int errnum @ '') (sqlstate '' @ sqlState @ '')''
                  @ callerID_of ctx @ '': Sql: '' @ fmt_q ext sql @ '', BindVars: {}'')"
    by (rule terse_SQLError [OF assms(1) assms(4) assms(5)])
  also have "\<dots> = map_option (error_Error ext)
           (convertAndLogError ext tsv ctx sql bindVariables
              (Some (SQLError errnum sqlState message)))"
    by (rule terse_SQLError [OF assms(1) assms(2) assms(3), symmetric])
  finally show ?thesis .
qed

lemma terse_SQLError_value:
  assumes "TerseErrors tsv" and "bindVariables \<noteq> []"
    and "convertErrorCode ext (SQLError errnum sqlState message) \<noteq> FAILED_PRECONDITION"
  shows "convertAndLogError ext tsv ctx sql bindVariables
           (Some (SQLError errnum sqlState message))
         = Some (VtError (convertErrorCode ext (SQLError errnum sqlState message))
             (''(errno '' @ show_int errnum @ '') (sqlstate '' @ sqlState @ '')''
                @ callerID_of ctx @ '': Sql: '' @ fmt_q ext sql @ '', BindVars: {}''))"
  using assms by (simp add: convertAndLogError_def Let_def queryAsString_nil)

lemma non_SQLError_value:
  "convertAndLogError ext tsv ctx sql bindVariables (Some (VtError c msg))
     = Some (VtError c (msg @ callerID_of ctx))"
  by (simp add: convertAndLogError_def Let_def convertErrorCode_def vterrors_Code_def
      error_Error_def)

text \<open>
  Claim C6, as the code has it. The reduction of terse mode applies to MySQL errors only.
  When terse mode is on, the call carried at least one bind variable and the classified
  code is not \<^verbatim>\<open>FAILED_PRECONDITION\<close>, the error returned for a \<^verbatim>\<open>*mysql.SQLError\<close>
  has the classified code and the message \<^verbatim>\<open>(errno N) (sqlstate X)<callerID>: \<close> followed
  by the query string built without bind variables. The message is built from the error
  number, the SQL state, the caller id and the SQL text alone: a second call that differs
  in its bind values, and in the MySQL message text that echoes them, is answered with the
  same message. For an error that is not a MySQL error, whatever the terse setting and the
  bind variables, the error returned keeps its code and its message is the error's own
  text followed by the caller id.
\<close>

theorem terse_mysql_error_message:
  "(TerseErrors tsv \<and> bindVariables \<noteq> []
      \<and> convertErrorCode ext (SQLError errnum sqlState message) \<noteq> FAILED_PRECONDITION \<longrightarrow>
      convertAndLogError ext tsv ctx sql bindVariables
          (Some (SQLError errnum sqlState message))
        = Some (VtError (convertErrorCode ext (SQLError errnum sqlState message))
            (''(errno '' @ show_int errnum @ '') (sqlstate '' @ sqlState @ '')''
               @ callerID_of ctx @ '': Sql: '' @ fmt_q ext sql @ '', BindVars: {}''))
      \<and> map_option (error_Error ext)
           (convertAndLogError ext tsv ctx sql bindVariables
              (Some (SQLError errnum sqlState message)))
         = Some (''(errno '' @ show_int errnum @ '') (sqlstate '' @ sqlState @ '')''
                  @ callerID_of ctx @ '': Sql: '' @ fmt_q ext sql @ '', BindVars: {}'')
      \<and> (bindVariables' \<noteq> []
            \<and> convertErrorCode ext (SQLError errnum sqlState message') \<noteq> FAILED_PRECONDITION
          \<longrightarrow> map_option (error_Error ext)
                (convertAndLogError ext tsv ctx sql bindVariables'
                   (Some (SQLError errnum sqlState message')))
              = map_option (error_Error ext)
                  (convertAndLogError ext tsv ctx sql bindVariables
                     (Some (SQLError errnum sqlState message)))))
   \<and> convertAndLogError ext tsv ctx sql bindVariables (Some (VtError c msg))
       = Some (VtError c (msg @ callerID_of ctx))
   \<and> map_option (error_Error ext)
        (convertAndLogError ext tsv ctx sql bindVariables (Some (VtError c msg)))
       = Some (msg @ callerID_of ctx)"
proof (intro conjI impI)
  assume h: "TerseErrors tsv \<and> bindVariables \<noteq> []
      \<and> convertErrorCode ext (SQLError errnum sqlState message) \<noteq> FAILED_PRECONDITION"
  then have t: "TerseErrors tsv" and b: "bindVariables \<noteq> []"
    and c: "convertErrorCode ext (SQLError errnum sqlState message) \<noteq> FAILED_PRECONDITION"
    by blast+
  show "convertAndLogError ext tsv ctx sql bindVariables
          (Some (SQLError errnum sqlState message))
        = Some (VtError (convertErrorCode ext (SQLError errnum sqlState message))
            (''(errno '' @ show_int errnum @ '') (sqlstate '' @ sqlState @ '')''
               @ callerID_of ctx @ '': Sql: '' @ fmt_q ext sql @ '', BindVars: {}''))"
    by (rule terse_SQLError_value [OF t b c])
  show "map_option (error_Error ext)
           (convertAndLogError ext tsv ctx sql bindVariables
              (Some (SQLError errnum sqlState message)))
         = Some (''(errno '' @ show_int errnum @ '') (sqlstate '' @ sqlState @ '')''
                  @ callerID_of ctx @ '': Sql: '' @ fmt_q ext sql @ '', BindVars: {}'')"
    by (rule terse_SQLError [OF t b c])
  assume other: "bindVariables' \<noteq> []
       \<and> convertErrorCode ext (SQLError errnum sqlState message') \<noteq> FAILED_PRECONDITION"
  then have b': "bindVariables' \<noteq> []"
    and c': "convertErrorCode ext (SQLError errnum sqlState message') \<noteq> FAILED_PRECONDITION"
    by blast+
  show "map_option (error_Error ext)
                (convertAndLogError ext tsv ctx sql bindVariables'
                   (Some (SQLError errnum sqlState message')))
              = map_option (error_Error ext)
                  (convertAndLogError ext tsv ctx sql bindVariables
                     (Some (SQLError errnum sqlState message)))"
    by (rule terse_SQLError_two_calls [OF t b c b' c'])
next
  show "convertAndLogError ext tsv ctx sql bindVariables (Some (VtError c msg))
       = Some (VtError c (msg @ callerID_of ctx))"
    by (rule non_SQLError_value)
next
  show "map_option (error_Error ext)
        (convertAndLogError ext tsv ctx sql bindVariables (Some (VtError c msg)))
       = Some (msg @ callerID_of ctx)"
    by (simp add: non_SQLError_value error_Error_def)
qed

text \<open>
  A duplicate-entry error (number 1062, classified \<^verbatim>\<open>ALREADY_EXISTS\<close>) whose MySQL message
  echoes the e-mail address bound to \<open>:e\<close>: the caller gets the number, the SQL state,
  the caller id and the SQL text, and the same message when another address is bound. An
  error of the server itself, on the same call, comes back with its own text and the
  caller id.
\<close>

theorem terse_mysql_error_message_witness:
  "(let ext = \<lparr>errno = (\<lambda>name. if name = ''ERDupEntry'' then 1062 else 0),
               SQLError_Error =
                 (\<lambda>n st m. m @ '' (errno '' @ show_int n @ '') (sqlstate '' @ st @ '')''),
               fmt_q = (\<lambda>s. ''<'' @ s @ ''>''),
               fmt_v = (\<lambda>v. case v of None \<Rightarrow> ''nil'' | Some (BindVariable b) \<Rightarrow> b)\<rparr>;
        tsv = NewTabletServer 0 True;
        ctx = WithImmediateCallerID ''app'' Background;
        sql = ''insert into u(email) values (:e)'';
        err = SQLError 1062 ''23000'' ''Duplicate entry alice@example.com for key email'';
        err' = SQLError 1062 ''23000'' ''Duplicate entry bob@example.com for key email''
    in TerseErrors tsv
       \<and> convertErrorCode ext err = ALREADY_EXISTS
       \<and> convertErrorCode ext err' = ALREADY_EXISTS
       \<and> convertAndLogError ext tsv ctx sql
              [(''e'', BindVariable ''alice@example.com'')] (Some err)
         = Some (VtError ALREADY_EXISTS
             ''(errno 1062) (sqlstate 23000) (CallerID: app): Sql: <insert into u(email) values (:e)>, BindVars: {}'')
       \<and> map_option (error_Error ext)
           (convertAndLogError ext tsv ctx sql
              [(''e'', BindVariable ''bob@example.com'')] (Some err'))
         = Some ''(errno 1062) (sqlstate 23000) (CallerID: app): Sql: <insert into u(email) values (:e)>, BindVars: {}''
       \<and> convertAndLogError ext tsv ctx sql
              [(''e'', BindVariable ''alice@example.com'')]
              (Some (VtError INVALID_ARGUMENT ''cannot convert value alice@example.com''))
         = Some (VtError INVALID_ARGUMENT
             ''cannot convert value alice@example.com (CallerID: app)''))"
  using terse_mysql_error_message [where tsv = "NewTabletServer 0 True"
      and bindVariables = "[(''e'', BindVariable ''alice@example.com'')]"
      and ext = "\<lparr>errno = (\<lambda>name. if name = ''ERDupEntry'' then 1062 else 0),
               SQLError_Error =
                 (\<lambda>n st m. m @ '' (errno '' @ show_int n @ '') (sqlstate '' @ st @ '')''),
               fmt_q = (\<lambda>s. ''<'' @ s @ ''>''),
               fmt_v = (\<lambda>v. case v of None \<Rightarrow> ''nil'' | Some (BindVariable b) \<Rightarrow> b)\<rparr>"
      and errnum = 1062 and sqlState = "''23000''"
      and message = "''Duplicate entry alice@example.com for key email''"
      and bindVariables' = "[(''e'', BindVariable ''bob@example.com'')]"
      and message' = "''Duplicate entry bob@example.com for key email''"
      and ctx = "WithImmediateCallerID ''app'' Background"
      and sql = "''insert into u(email) values (:e)''"
      and c = INVALID_ARGUMENT and msg = "''cannot convert value alice@example.com''"]
  by (simp add: Let_def NewTabletServer_def convertErrorCode_def is_case_def vterrors_Code_def
      cases_RESOURCE_EXHAUSTED_def cases_NOT_FOUND_def cases_PERMISSION_DENIED_def
      cases_FAILED_PRECONDITION_def cases_ALREADY_EXISTS_def callerID_of_def show_int_1062
      convertAndLogError_def queryAsString_def error_Error_def)

text \<open>
  The reduction does not reach an error that is not a MySQL error. With terse mode on, one
  bind variable and the code \<^verbatim>\<open>INVALID_ARGUMENT\<close>, the caller gets the text of the error as
  it came, which is not of the terse form and here carries the bound value.
\<close>

theorem terse_non_mysql_error_counterexample:
  "(let ext = \<lparr>errno = (\<lambda>name. if name = ''ERDupEntry'' then 1062 else 0),
               SQLError_Error =
                 (\<lambda>n st m. m @ '' (errno '' @ show_int n @ '') (sqlstate '' @ st @ '')''),
               fmt_q = (\<lambda>s. ''<'' @ s @ ''>''),
               fmt_v = (\<lambda>v. case v of None \<Rightarrow> ''nil'' | Some (BindVariable b) \<Rightarrow> b)\<rparr>;
        tsv = NewTabletServer 0 True;
        bindVariables = [(''e'', BindVariable ''alice@example.com'')];
        err = VtError INVALID_ARGUMENT ''cannot convert value alice@example.com''
    in TerseErrors tsv \<and> length bindVariables \<noteq> 0
       \<and> convertErrorCode ext err \<noteq> FAILED_PRECONDITION
       \<and> map_option (error_Error ext)
           (convertAndLogError ext tsv Background ''select * from u where email = :e''
              bindVariables (Some err))
         = Some ''cannot convert value alice@example.com''
       \<and> \<not> prefix ''(errno '' ''cannot convert value alice@example.com''
       \<and> Contains ''cannot convert value alice@example.com'' ''alice@example.com'')"
  by (simp add: Let_def NewTabletServer_def convertErrorCode_def vterrors_Code_def
      convertAndLogError_def callerID_of_def error_Error_def)

end
